theory Spec2Isabelle
  imports Complex_Main "HOL-Library.Sublist" "HOL-Library.Word"
begin

section \<open>JavaScript helpers used by the components\<close>

text \<open>
  A JavaScript string is modelled as a \<^typ>\<open>string\<close>: the sequence of its code units,
  restricted to the 8-bit range. \<open>String.prototype.trim\<close> strips the white space and line
  terminator code units from both ends; in the 8-bit range these are TAB, LF, VT, FF, CR,
  SPACE and NBSP.
\<close>

definition js_whitespace :: "char \<Rightarrow> bool" where
  "js_whitespace c =
     (c = CHR 0x09 \<or> c = CHR 0x0A \<or> c = CHR 0x0B \<or> c = CHR 0x0C \<or> c = CHR 0x0D \<or>
      c = CHR 0x20 \<or> c = CHR 0xA0)"

definition trim :: "string \<Rightarrow> string" where
  "trim s = rev (dropWhile js_whitespace (rev (dropWhile js_whitespace s)))"

text \<open>
  \<open>buffer.split('\n')\<close>: the pieces between the line feeds, in order. The result is never
  empty: a text without line feed is its own single piece, and a text that ends in a line
  feed has the empty string as last piece.
\<close>

fun split_nl :: "string \<Rightarrow> string list" where
  "split_nl [] = [[]]"
| "split_nl (c # cs) =
     (if c = CHR 0x0A then [] # split_nl cs
      else (c # hd (split_nl cs)) # tl (split_nl cs))"

text \<open>
  An \<open>axios\<close> call either resolves with the response data or rejects (network failure, or a
  status outside 2xx); the \<open>try\<close>/\<open>catch\<close> around each call makes rejection a branch.
\<close>

datatype 'a promise = Rejected | Resolved 'a

section \<open>MachineCard.jsx\<close>

text \<open>
  A JavaScript number is an IEEE 754 double: it is modelled by its 64 bits, with the sign,
  the biased exponent and the fraction read off the bit pattern. A finite double denotes
  the real \<open>double_value\<close>; \<open>>\<close> and \<open>\<le>\<close> on numbers compare the denoted values, are false
  when an operand is \<open>NaN\<close>, and order the infinities below and above every finite number.
  The literals \<open>1.0\<close> and \<open>0.8\<close> of the source are the doubles nearest to these decimals.
\<close>

type_synonym double = "64 word"

definition sign_bit :: "double \<Rightarrow> bool" where
  "sign_bit w = (unat w div 2 ^ 63 = 1)"

definition biased_exponent :: "double \<Rightarrow> nat" where
  "biased_exponent w = (unat w div 2 ^ 52) mod 2048"

definition fraction :: "double \<Rightarrow> nat" where
  "fraction w = unat w mod 2 ^ 52"

definition is_NaN :: "double \<Rightarrow> bool" where
  "is_NaN w = (biased_exponent w = 2047 \<and> fraction w \<noteq> 0)"

definition is_infinite :: "double \<Rightarrow> bool" where
  "is_infinite w = (biased_exponent w = 2047 \<and> fraction w = 0)"

definition double_value :: "double \<Rightarrow> real" where
  "double_value w =
     (if sign_bit w then - 1 else 1) *
     (if biased_exponent w = 0 then real (fraction w) / 2 ^ 1074
      else real (2 ^ 52 + fraction w) * 2 ^ (biased_exponent w - 1) / 2 ^ 1074)"

definition double_gt :: "double \<Rightarrow> double \<Rightarrow> bool" where
  "double_gt a b =
     (\<not> is_NaN a \<and> \<not> is_NaN b \<and>
      (if is_infinite a then \<not> sign_bit a \<and> \<not> (is_infinite b \<and> \<not> sign_bit b)
       else if is_infinite b then sign_bit b
       else double_value a > double_value b))"

definition double_le :: "double \<Rightarrow> double \<Rightarrow> bool" where
  "double_le a b =
     (\<not> is_NaN a \<and> \<not> is_NaN b \<and>
      (if is_infinite a then sign_bit a \<or> (is_infinite b \<and> \<not> sign_bit b)
       else if is_infinite b then \<not> sign_bit b
       else double_value a \<le> double_value b))"

text \<open>The literals of the source: \<open>1.0\<close> is exact, \<open>0.8\<close> is rounded up to the next double.\<close>

definition lit_1_0 :: double where "lit_1_0 = 0x3FF0000000000000"
definition lit_0_8 :: double where "lit_0_8 = 0x3FE999999999999A"

text \<open>
  A record of the metrics response, with the field the card reads. \<open>vibration\<close> is the value
  as the response carries it after JSON parsing (a number there is already a double); the
  comparison with a number literal first converts it by \<open>ToNumber\<close>, a parameter of the
  model, which is the identity on numbers and gives \<open>NaN\<close> for \<open>undefined\<close>.
\<close>

record 'v metric =
  vibration :: 'v

record 'v machine_card =
  metrics :: "'v metric list"
  loading :: bool
  status :: string

definition MachineCard_init :: "'v machine_card" where
  "MachineCard_init = \<lparr>metrics = [], loading = True, status = ''running''\<rparr>"

definition vibration_status :: "('v \<Rightarrow> double) \<Rightarrow> 'v metric \<Rightarrow> string" where
  "vibration_status ToNumber latest =
     (if double_gt (ToNumber (vibration latest)) lit_1_0 then ''error''
      else if double_gt (ToNumber (vibration latest)) lit_0_8 then ''warning''
      else ''running'')"

definition fetchMetrics ::
  "('v \<Rightarrow> double) \<Rightarrow> 'v metric list promise \<Rightarrow> 'v machine_card \<Rightarrow> 'v machine_card" where
  "fetchMetrics ToNumber response s =
     (case response of
        Rejected \<Rightarrow> s\<lparr>loading := False\<rparr>
      | Resolved rdata \<Rightarrow>
          (let s1 = s\<lparr>metrics := rdata\<rparr>;
               s2 = (if length rdata > 0
                     then s1\<lparr>status := vibration_status ToNumber (rdata ! (length rdata - 1))\<rparr>
                     else s1)
           in s2\<lparr>loading := False\<rparr>))"

section \<open>AIReportModal.jsx: the charts of the AgentChat widget\<close>

text \<open>
  The records of a chart payload are opaque to the client: they are the type parameter
  \<open>'c\<close>. An absent (\<open>undefined\<close> or \<open>null\<close>) field is \<open>None\<close>; an array, also the empty
  one, is truthy in JavaScript.
\<close>

datatype 'c chart = AnomalyChart "'c list" | ForecastChart "'c list" | LineChart "'c list"

record 'c agent_chat_message =
  role :: string
  content :: string
  chart_data :: "'c list option"
  chart_type :: "string option"
  isStatus :: "bool option"

text \<open>The chart elements that the message list of \<open>AgentChat\<close> renders for one message.\<close>

definition AgentChat_charts :: "'c agent_chat_message \<Rightarrow> 'c chart list" where
  "AgentChat_charts msg =
     (if agent_chat_message.role msg = ''agent'' then
        (case agent_chat_message.chart_data msg of
           Some d \<Rightarrow>
             (if agent_chat_message.chart_type msg = Some ''scatter_anomaly''
              then [AnomalyChart d] else [])
         | None \<Rightarrow> []) @
        (case agent_chat_message.chart_data msg of
           Some d \<Rightarrow>
             (if agent_chat_message.chart_type msg = Some ''forecast''
              then [ForecastChart d] else [])
         | None \<Rightarrow> [])
      else [])"

section \<open>ChatPage.jsx: data model\<close>

text \<open>
  \<open>data\<close> is the object that \<open>JSON.parse\<close> returns for one line of the stream, with the
  fields the client reads, typed as the protocol types them. A parsed value of another
  shape takes no branch of the dispatch (for \<open>null\<close> the read of \<open>data.type\<close> throws inside
  the \<open>try\<close>, and the \<open>catch\<close> only logs): it behaves as a \<open>data\<close> whose \<open>type\<close> is none of
  the six strings. \<open>item\<close> is one element of the response of \<open>GET /threads/:id\<close>; a field
  that a message does not have (\<open>undefined\<close>) is \<open>None\<close>.
\<close>

record 'c data =
  type :: string
  content :: string
  chart_data :: "'c list option"
  chart_type :: "string option"

record 'c metadata =
  chart_data :: "'c list option"

record 'c item =
  role :: string
  content :: string
  metadata :: "'c metadata option"

record 'c message =
  role :: string
  content :: string
  chart_data :: "'c list option"
  streaming :: "bool option"

record thread =
  thread_id :: string
  title :: string

record 'c chat_state =
  messages :: "'c message list"
  input :: string
  loading :: bool
  status :: string
  threads :: "thread list"
  activeThreadId :: "string option"

definition greeting :: "'c message" where
  "greeting =
     \<lparr>role = ''agent'',
      content = ''Hello! I am your AI Data Assistant. I can help you analyze machine performance, query databases, and troubleshoot anomalies.'',
      chart_data = None, streaming = None\<rparr>"

definition ChatPage_init :: "'c chat_state" where
  "ChatPage_init =
     \<lparr>messages = [greeting], input = [], loading = False, status = [],
      threads = [], activeThreadId = None\<rparr>"

text \<open>The chart elements that the message list of \<open>ChatPage\<close> renders for one message.\<close>

definition ChatPage_charts :: "'c message \<Rightarrow> 'c chart list" where
  "ChatPage_charts msg =
     (case chart_data msg of
        Some d \<Rightarrow> (if length d > 0 then [LineChart d] else [])
      | None \<Rightarrow> [])"

section \<open>ChatPage.jsx: thread handlers\<close>

definition handleResetChat :: "'c chat_state \<Rightarrow> 'c chat_state" where
  "handleResetChat s = s\<lparr>messages := [greeting], status := []\<rparr>"

definition item_message :: "'c item \<Rightarrow> 'c message" where
  "item_message i =
     \<lparr>role = item.role i, content = item.content i,
      chart_data = (case metadata i of None \<Rightarrow> None | Some md \<Rightarrow> metadata.chart_data md),
      streaming = None\<rparr>"

text \<open>
  \<open>loadThread\<close>, given how the \<open>GET\<close> ends. A response without data counts as the empty
  list (both take the \<open>else\<close> branch).
\<close>

definition loadThread :: "string \<Rightarrow> 'c item list promise \<Rightarrow> 'c chat_state \<Rightarrow> 'c chat_state" where
  "loadThread threadId res s =
     (case res of
        Rejected \<Rightarrow> s
      | Resolved rdata \<Rightarrow>
          (let s1 = s\<lparr>activeThreadId := Some threadId\<rparr>
           in if length rdata > 0
              then s1\<lparr>messages := map item_message rdata\<rparr>
              else s1\<lparr>messages := [greeting]\<rparr>))"

definition createNewThread :: "thread promise \<Rightarrow> 'c chat_state \<Rightarrow> 'c chat_state" where
  "createNewThread res s =
     (case res of
        Rejected \<Rightarrow> s
      | Resolved rdata \<Rightarrow>
          (let newThread = \<lparr>thread_id = thread_id rdata, title = title rdata\<rparr>
           in s\<lparr>threads := newThread # threads s,
                activeThreadId := Some (thread_id rdata),
                messages := [greeting]\<rparr>))"

definition refreshThreads :: "thread list promise \<Rightarrow> 'c chat_state \<Rightarrow> 'c chat_state" where
  "refreshThreads res s =
     (case res of Rejected \<Rightarrow> s | Resolved rdata \<Rightarrow> s\<lparr>threads := rdata\<rparr>)"

text \<open>
  \<open>deleteThread\<close>, given how the \<open>DELETE\<close> ends and how the \<open>GET\<close> of the \<open>loadThread\<close> it
  may start ends.
\<close>

definition deleteThread ::
  "string \<Rightarrow> unit promise \<Rightarrow> 'c item list promise \<Rightarrow> 'c chat_state \<Rightarrow> 'c chat_state" where
  "deleteThread threadId del res s =
     (case del of
        Rejected \<Rightarrow> s
      | Resolved _ \<Rightarrow>
          (let s1 = s\<lparr>threads := filter (\<lambda>t. thread_id t \<noteq> threadId) (threads s)\<rparr>
           in if activeThreadId s = Some threadId then
                (let remaining = filter (\<lambda>t. thread_id t \<noteq> threadId) (threads s)
                 in if length remaining > 0
                    then loadThread (thread_id (remaining ! 0)) res s1
                    else handleResetChat (s1\<lparr>activeThreadId := None\<rparr>))
              else s1))"

section \<open>ChatPage.jsx: handleSubmit and the stream reader\<close>

text \<open>
  The two functional updaters that \<open>handleSubmit\<close> passes to \<open>setMessages\<close> for a \<open>token\<close> and
  for an \<open>answer_end\<close> event. \<open>prev[prev.length - 1]\<close> is \<open>undefined\<close> on the empty list, and
  \<open>prev.slice(0, -1)\<close> is the list without its last element.
\<close>

definition append_token :: "'c data \<Rightarrow> 'c message list \<Rightarrow> 'c message list" where
  "append_token d prev =
     (if prev \<noteq> [] \<and> role (last prev) = ''agent'' \<and> streaming (last prev) = Some True
      then butlast prev @ [(last prev)\<lparr>content := content (last prev) @ data.content d\<rparr>]
      else prev @ [\<lparr>role = ''agent'', content = data.content d, chart_data = None,
                    streaming = Some True\<rparr>])"

definition finalize_stream :: "'c message list \<Rightarrow> 'c message list" where
  "finalize_stream prev =
     (if prev \<noteq> [] \<and> streaming (last prev) = Some True
      then butlast prev @ [(last prev)\<lparr>streaming := Some False\<rparr>]
      else prev)"

text \<open>The \<open>if\<close>/\<open>else if\<close> chain on \<open>data.type\<close>, in the order of the source.\<close>

definition dispatch_event :: "'c data \<Rightarrow> 'c chat_state \<Rightarrow> 'c chat_state" where
  "dispatch_event d s =
     (if type d = ''status'' then s\<lparr>status := data.content d\<rparr>
      else if type d = ''log'' then s
      else if type d = ''token'' then
        s\<lparr>messages := append_token d (messages s), status := []\<rparr>
      else if type d = ''answer_end'' then
        s\<lparr>messages := finalize_stream (messages s), status := []\<rparr>
      else if type d = ''answer'' then
        s\<lparr>messages := messages s @
             [\<lparr>role = ''agent'', content = data.content d,
               chart_data = data.chart_data d, streaming = None\<rparr>],
          status := []\<rparr>
      else if type d = ''error'' then
        s\<lparr>messages := messages s @
             [\<lparr>role = ''agent'', content = ''Error: '' @ data.content d,
               chart_data = None, streaming = None\<rparr>],
          status := []\<rparr>
      else s)"

text \<open>
  The body of \<open>for (const line of lines)\<close>. \<open>JSON.parse\<close> is a parameter: it gives \<open>None\<close>
  where it throws, and the \<open>catch\<close> inside the loop then only logs.
\<close>

definition process_line :: "(string \<Rightarrow> 'c data option) \<Rightarrow> string \<Rightarrow> 'c chat_state \<Rightarrow> 'c chat_state" where
  "process_line JSON_parse line s =
     (if trim line = [] then s
      else (case JSON_parse line of None \<Rightarrow> s | Some d \<Rightarrow> dispatch_event d s))"

fun for_lines :: "(string \<Rightarrow> 'c data option) \<Rightarrow> string list \<Rightarrow> 'c chat_state \<Rightarrow> 'c chat_state" where
  "for_lines JSON_parse [] s = s"
| "for_lines JSON_parse (line # lines) s =
     for_lines JSON_parse lines (process_line JSON_parse line s)"

text \<open>
  The \<open>while (true)\<close> loop over \<open>reader.read()\<close>. The body of the response is the list of
  the texts that the streaming \<open>TextDecoder\<close> returns for the chunks read, and how the
  stream ends: \<open>Done\<close> when \<open>read\<close> reports \<open>done\<close>, \<open>ReadError\<close> when it rejects. The decoder
  keeps an incomplete multi-byte sequence for the next chunk, so every way of cutting the
  bytes into chunks gives a way of cutting the decoded text into such pieces.
  \<open>lines.pop()\<close> takes the last piece off \<open>lines\<close> and makes it the new buffer.
\<close>

datatype stream_end = Done | ReadError

datatype 'a outcome = Returned (state_of: 'a) | Thrown (state_of: 'a)

fun read_loop ::
  "(string \<Rightarrow> 'c data option) \<Rightarrow> string list \<Rightarrow> stream_end \<Rightarrow> string \<Rightarrow> 'c chat_state \<Rightarrow>
   'c chat_state outcome" where
  "read_loop JSON_parse [] Done buffer s = Returned s"
| "read_loop JSON_parse [] ReadError buffer s = Thrown s"
| "read_loop JSON_parse (chunk # rest) e buffer s =
     (let lines = split_nl (buffer @ chunk)
      in read_loop JSON_parse rest e (last lines) (for_lines JSON_parse (butlast lines) s))"

text \<open>
  \<open>fetch\<close> rejects on a network failure; otherwise it resolves with a response whose \<open>ok\<close>
  flag tells a 2xx status, and whose body is read by the loop above.
\<close>

datatype fetch_result = FetchRejected | FetchResponse bool "string list" stream_end

definition falsy :: "string option \<Rightarrow> bool" where
  "falsy x = (case x of None \<Rightarrow> True | Some i \<Rightarrow> i = [])"

definition connection_failed :: "'c message" where
  "connection_failed =
     \<lparr>role = ''agent'', content = ''Sorry, connection failed. Please try again.'',
      chart_data = None, streaming = None\<rparr>"

text \<open>The statements of \<open>handleSubmit\<close> before its second \<open>try\<close> block.\<close>

definition submit_begin :: "thread promise \<Rightarrow> 'c chat_state \<Rightarrow> 'c chat_state" where
  "submit_begin created s =
     (let userMsg = input s;
          s1 = s\<lparr>messages := messages s @
                    [\<lparr>role = ''user'', content = userMsg, chart_data = None, streaming = None\<rparr>],
                 input := [], loading := True, status := ''Starting...''\<rparr>
      in if falsy (activeThreadId s) then
           (case created of
              Rejected \<Rightarrow> s1
            | Resolved rdata \<Rightarrow>
                (let newThread = \<lparr>thread_id = thread_id rdata, title = title rdata\<rparr>
                 in s1\<lparr>threads := newThread # threads s1,
                       activeThreadId := Some (thread_id rdata)\<rparr>))
         else s1)"

text \<open>The body of the second \<open>try\<close> block: the request and the reader loop.\<close>

definition submit_stream ::
  "(string \<Rightarrow> 'c data option) \<Rightarrow> fetch_result \<Rightarrow> 'c chat_state \<Rightarrow> 'c chat_state outcome" where
  "submit_stream JSON_parse fetched s =
     (case fetched of
        FetchRejected \<Rightarrow> Thrown s
      | FetchResponse ok body e \<Rightarrow>
          (if \<not> ok then Thrown s else read_loop JSON_parse body e [] s))"

text \<open>
  \<open>handleSubmit\<close>, given how the \<open>POST /threads\<close> of the auto-create path and the
  \<open>fetch\<close> of the stream end. The \<open>finally\<close> block also starts \<open>refreshThreads\<close>, which is not
  awaited: its update of the thread list is the separate step \<^const>\<open>refreshThreads\<close>.
\<close>

definition handleSubmit ::
  "(string \<Rightarrow> 'c data option) \<Rightarrow> thread promise \<Rightarrow> fetch_result \<Rightarrow> 'c chat_state \<Rightarrow> 'c chat_state" where
  "handleSubmit JSON_parse created fetched s =
     (if trim (input s) = [] then s
      else
        (let s2 = submit_begin created s;
             s3 = (case submit_stream JSON_parse fetched s2 of
                     Returned s' \<Rightarrow> s'
                   | Thrown s' \<Rightarrow>
                       s'\<lparr>messages := messages s' @ [connection_failed], status := []\<rparr>)
         in s3\<lparr>loading := False, status := []\<rparr>))"

section \<open>Sample inputs\<close>

text \<open>
  A stand-in for \<open>JSON.parse\<close> on four fixed lines, to run the reader on concrete streams.
\<close>

definition sample_parse :: "string \<Rightarrow> nat data option" where
  "sample_parse line =
     (if line = ''t'' then
        Some \<lparr>type = ''token'', content = ''ab'', chart_data = None, chart_type = None\<rparr>
      else if line = ''e'' then
        Some \<lparr>type = ''answer_end'', content = [], chart_data = None, chart_type = None\<rparr>
      else if line = ''x'' then
        Some \<lparr>type = ''error'', content = ''boom'', chart_data = None, chart_type = None\<rparr>
      else if line = ''s'' then
        Some \<lparr>type = ''status'', content = ''Thinking'', chart_data = None, chart_type = None\<rparr>
      else None)"

definition sample_state :: "nat chat_state" where
  "sample_state =
     \<lparr>messages = [greeting], input = ''hi'', loading = False, status = [],
      threads = [\<lparr>thread_id = ''t2'', title = ''second''\<rparr>, \<lparr>thread_id = ''t1'', title = ''first''\<rparr>],
      activeThreadId = Some ''t2''\<rparr>"

text \<open>
  Sample values of the \<open>vibration\<close> field, and \<open>ToNumber\<close> on them: a number is itself,
  \<open>undefined\<close> is \<open>NaN\<close>, the string \<open>1.5\<close> is the double 1.5, any other string here is \<open>NaN\<close>.
\<close>

datatype sample_value = JUndefined | JNumber double | JString string

fun sample_ToNumber :: "sample_value \<Rightarrow> double" where
  "sample_ToNumber JUndefined = 0x7FF8000000000000"
| "sample_ToNumber (JNumber d) = d"
| "sample_ToNumber (JString x) =
     (if x = ''1.5'' then 0x3FF8000000000000 else 0x7FF8000000000000)"

text \<open>Creation times for the sample threads: a larger number is newer.\<close>

definition sample_created :: "thread \<Rightarrow> nat" where
  "sample_created x =
     (if thread_id x = ''t3'' then 3 else if thread_id x = ''t2'' then 2 else 1)"

section \<open>Auxiliary facts\<close>

subsection \<open>Splitting at line feeds\<close>

lemma split_nl_nonempty: "split_nl s \<noteq> []"
  by (induction s) auto

lemma split_nl_append:
  "split_nl (a @ b) = butlast (split_nl a) @ split_nl (last (split_nl a) @ b)"
proof (induction a)
  case Nil
  show ?case by simp
next
  case (Cons c cs)
  obtain y ys where Y: "split_nl cs = y # ys"
    using split_nl_nonempty [of cs] by (cases "split_nl cs") auto
  show ?case
  proof (cases "c = CHR 0x0A")
    case True
    then show ?thesis using Cons Y by simp
  next
    case False
    show ?thesis
    proof (cases ys)
      case Nil
      then show ?thesis using False Cons Y by simp
    next
      case (Cons z zs)
      then show ?thesis using False Cons.IH Y by simp
    qed
  qed
qed

lemma last_split_nl: "CHR 0x0A \<notin> set (last (split_nl s))"
proof (induction s)
  case Nil
  show ?case by simp
next
  case (Cons c cs)
  obtain y ys where Y: "split_nl cs = y # ys"
    using split_nl_nonempty [of cs] by (cases "split_nl cs") auto
  show ?case using Cons Y by (cases ys) auto
qed

lemma split_nl_single: "CHR 0x0A \<notin> set s \<Longrightarrow> split_nl s = [s]"
  by (induction s) auto

lemma split_nl_lines:
  "\<forall>l \<in> set ls. CHR 0x0A \<notin> set l \<Longrightarrow>
   split_nl (concat (map (\<lambda>l. l @ [CHR 0x0A]) ls)) = ls @ [[]]"
proof (induction ls)
  case Nil
  show ?case by simp
next
  case (Cons l ls)
  have "split_nl (l @ CHR 0x0A # r) = l # split_nl r" if "CHR 0x0A \<notin> set l" for l r
    using that by (induction l) auto
  then show ?case using Cons by simp
qed

subsection \<open>The reader loop as one pass over the lines\<close>

lemma for_lines_append:
  "for_lines P (xs @ ys) s = for_lines P ys (for_lines P xs s)"
  by (induction xs arbitrary: s) auto

lemma read_loop_eq:
  "CHR 0x0A \<notin> set buf \<Longrightarrow>
   read_loop P cs e buf s =
     (case e of Done \<Rightarrow> Returned (for_lines P (butlast (split_nl (buf @ concat cs))) s)
              | ReadError \<Rightarrow> Thrown (for_lines P (butlast (split_nl (buf @ concat cs))) s))"
proof (induction cs arbitrary: buf s)
  case Nil
  then show ?case by (cases e) (simp_all add: split_nl_single)
next
  case (Cons c cs)
  let ?L = "split_nl (buf @ c)"
  have a: "split_nl (buf @ concat (c # cs)) = butlast ?L @ split_nl (last ?L @ concat cs)"
    using split_nl_append [of "buf @ c" "concat cs"] by simp
  have b: "butlast (split_nl (buf @ concat (c # cs))) =
           butlast ?L @ butlast (split_nl (last ?L @ concat cs))"
    unfolding a by (simp add: butlast_append split_nl_nonempty)
  show ?case
    unfolding b for_lines_append
    using Cons.IH [OF last_split_nl, of "buf @ c"]
    by (simp add: Let_def)
qed

lemma read_loop_start:
  "read_loop P cs e [] s =
     (case e of Done \<Rightarrow> Returned (for_lines P (butlast (split_nl (concat cs))) s)
              | ReadError \<Rightarrow> Thrown (for_lines P (butlast (split_nl (concat cs))) s))"
  using read_loop_eq [of "[]" P cs e s] by (cases e) simp_all

lemma state_of_read_loop:
  "state_of (read_loop P cs e [] s) = for_lines P (butlast (split_nl (concat cs))) s"
  by (cases e) (simp_all add: read_loop_start)

lemma for_lines_fold:
  "\<forall>l \<in> set ls. trim l \<noteq> [] \<Longrightarrow> map P ls = map Some ds \<Longrightarrow>
   for_lines P ls s = fold dispatch_event ds s"
proof (induction ls arbitrary: ds s)
  case Nil
  then show ?case by simp
next
  case (Cons l ls)
  from Cons.prems(2) obtain d ds' where ds: "ds = d # ds'" "P l = Some d" "map P ls = map Some ds'"
    by (cases ds) auto
  have "process_line P l s = dispatch_event d s"
    using Cons.prems(1) ds(2) by (simp add: process_line_def)
  then show ?case using Cons.IH [OF _ ds(3)] Cons.prems(1) ds(1) by simp
qed

lemma state_of_submit_stream:
  "state_of (submit_stream P fetched s) =
     (case fetched of FetchRejected \<Rightarrow> s
      | FetchResponse ok body e \<Rightarrow>
          if ok then for_lines P (butlast (split_nl (concat body))) s else s)"
  by (simp add: submit_stream_def state_of_read_loop split: fetch_result.splits)

lemma handleSubmit_unfold:
  "trim (input s) \<noteq> [] \<Longrightarrow>
   handleSubmit P created fetched s =
     (case submit_stream P fetched (submit_begin created s) of
        Returned s' \<Rightarrow> s'\<lparr>chat_state.loading := False, chat_state.status := []\<rparr>
      | Thrown s' \<Rightarrow> s'\<lparr>messages := messages s' @ [connection_failed],
           chat_state.loading := False, chat_state.status := []\<rparr>)"
  by (simp add: handleSubmit_def Let_def split: outcome.splits)

lemma messages_submit_begin:
  "messages (submit_begin created s) =
     messages s @ [\<lparr>role = ''user'', content = input s, chart_data = None, streaming = None\<rparr>]"
  by (simp add: submit_begin_def Let_def split: promise.splits)

subsection \<open>What the dispatch leaves alone\<close>

lemma dispatch_event_frame:
  "threads (dispatch_event d s) = threads s \<and>
   activeThreadId (dispatch_event d s) = activeThreadId s \<and>
   input (dispatch_event d s) = input s \<and>
   chat_state.loading (dispatch_event d s) = chat_state.loading s"
  by (simp add: dispatch_event_def)

lemma for_lines_frame:
  "threads (for_lines P ls s) = threads s \<and>
   activeThreadId (for_lines P ls s) = activeThreadId s \<and>
   input (for_lines P ls s) = input s \<and>
   chat_state.loading (for_lines P ls s) = chat_state.loading s"
  by (induction ls arbitrary: s)
     (simp_all add: process_line_def dispatch_event_frame split: option.splits)

lemma read_loop_frame:
  "threads (state_of (read_loop P cs e buf s)) = threads s \<and>
   activeThreadId (state_of (read_loop P cs e buf s)) = activeThreadId s \<and>
   input (state_of (read_loop P cs e buf s)) = input s \<and>
   chat_state.loading (state_of (read_loop P cs e buf s)) = chat_state.loading s"
proof (induction cs arbitrary: buf s)
  case Nil
  show ?case by (cases e) simp_all
next
  case (Cons c cs)
  show ?case by (simp add: Let_def Cons for_lines_frame)
qed

lemma handleSubmit_threads:
  assumes "trim (input s) \<noteq> []"
  shows "threads (handleSubmit P created fetched s) = threads (submit_begin created s)"
proof -
  have "threads (state_of (submit_stream P fetched (submit_begin created s))) =
        threads (submit_begin created s)"
    by (simp add: state_of_submit_stream for_lines_frame split: fetch_result.splits)
  then show ?thesis
    unfolding handleSubmit_unfold [OF assms]
    by (cases "submit_stream P fetched (submit_begin created s)") simp_all
qed

lemma loadThread_threads: "threads (loadThread t res s) = threads s"
  by (simp add: loadThread_def Let_def split: promise.splits)

lemma finalize_stream_frame:
  "map (\<lambda>m. m\<lparr>streaming := None\<rparr>) (finalize_stream prev) =
     map (\<lambda>m. m\<lparr>streaming := None\<rparr>) prev \<and>
   map content (finalize_stream prev) = map content prev \<and>
   butlast (finalize_stream prev) = butlast prev"
proof (cases "prev = []")
  case True
  then show ?thesis by (simp add: finalize_stream_def)
next
  case False
  then obtain ys y where "prev = ys @ [y]"
    by (metis append_butlast_last_id)
  then show ?thesis by (simp add: finalize_stream_def)
qed

subsection \<open>Messages displayed before a request are kept\<close>





subsection \<open>Runs of token events\<close>

lemma fold_tokens_quiet:
  assumes "\<forall>d \<in> set evs. type d \<noteq> ''answer_end'' \<and> type d \<noteq> ''answer'' \<and> type d \<noteq> ''error''"
    and "messages s = pre @ [m]" and "role m = ''agent''" and "streaming m = Some True"
  shows "messages (fold dispatch_event evs s) =
     pre @ [m\<lparr>content := content m @
              concat (map data.content (filter (\<lambda>d. type d = ''token'') evs))\<rparr>]"
  using assms
proof (induction evs arbitrary: s m)
  case Nil
  then show ?case by simp
next
  case (Cons d evs)
  show ?case
  proof (cases "type d = ''token''")
    case True
    have "messages (dispatch_event d s) = pre @ [m\<lparr>content := content m @ data.content d\<rparr>]"
      using True Cons.prems by (simp add: dispatch_event_def append_token_def)
    from Cons.IH [OF _ this] Cons.prems(1,3,4) True show ?thesis by simp
  next
    case False
    have "messages (dispatch_event d s) = pre @ [m]"
      using False Cons.prems by (simp add: dispatch_event_def)
    from Cons.IH [OF _ this] Cons.prems(1,3,4) False show ?thesis by simp
  qed
qed

lemma token_run:
  assumes "filter (\<lambda>d. type d = ''token'') evs \<noteq> []"
    and "\<forall>d \<in> set evs. type d \<noteq> ''answer_end'' \<and> type d \<noteq> ''answer'' \<and> type d \<noteq> ''error''"
    and "type e = ''answer_end''"
    and "\<not> (messages s \<noteq> [] \<and> role (last (messages s)) = ''agent'' \<and>
            streaming (last (messages s)) = Some True)"
  shows "messages (fold dispatch_event (evs @ [e]) s) =
         messages s @
           [\<lparr>role = ''agent'',
             content = concat (map data.content (filter (\<lambda>d. type d = ''token'') evs)),
             chart_data = None, streaming = Some False\<rparr>]"
  using assms(1,2,4)
proof (induction evs arbitrary: s)
  case Nil
  then show ?case by simp
next
  case (Cons d evs)
  show ?case
  proof (cases "type d = ''token''")
    case True
    let ?m = "\<lparr>role = ''agent'', content = data.content d, chart_data = None,
                streaming = Some True\<rparr> :: 'a message"
    have 1: "messages (dispatch_event d s) = messages s @ [?m]"
      using True Cons.prems(3) by (auto simp: dispatch_event_def append_token_def)
    have 2: "messages (fold dispatch_event evs (dispatch_event d s)) =
             messages s @ [?m\<lparr>content := content ?m @
               concat (map data.content (filter (\<lambda>d. type d = ''token'') evs))\<rparr>]"
      by (rule fold_tokens_quiet [OF _ 1]) (use Cons.prems(2) in simp_all)
    have 3: "messages (dispatch_event e s') = finalize_stream (messages s')" for s' :: "'a chat_state"
      using assms(3) by (simp add: dispatch_event_def)
    show ?thesis
      using True by (simp add: 3 2 finalize_stream_def)
  next
    case False
    have "messages (dispatch_event d s) = messages s"
      using False Cons.prems(2) by (simp add: dispatch_event_def)
    with Cons.IH [of "dispatch_event d s"] Cons.prems False show ?thesis by simp
  qed
qed

section \<open>Properties of the stream protocol in handleSubmit\<close>

text \<open>
  C1. Where the last message is not a streaming agent message (as when the reader starts,
  the user's message being last), a run of events that holds the tokens \<open>t1, ..., tn\<close> and,
  between them, only events that touch no message, followed by \<open>answer_end\<close>, adds exactly
  one agent message, whose content is the concatenation of the tokens in order and whose
  streaming flag is cleared; so a response of \<open>handleSubmit\<close> that consists of these lines
  adds the user's message and that one agent message. The \<open>answer_end\<close> event changes no
  field of any message but \<open>streaming\<close>, touches the last message only, and leaves the list
  as it is when the last message is not streaming.
\<close>

theorem token_run_builds_one_message:
  assumes "filter (\<lambda>d. type d = ''token'') evs \<noteq> []"
    and "\<forall>d \<in> set evs. type d \<noteq> ''answer_end'' \<and> type d \<noteq> ''answer'' \<and> type d \<noteq> ''error''"
    and "type e = ''answer_end''"
  shows
    "(\<not> (messages s \<noteq> [] \<and> role (last (messages s)) = ''agent'' \<and>
          streaming (last (messages s)) = Some True) \<longrightarrow>
        messages (fold dispatch_event (evs @ [e]) s) =
          messages s @
            [\<lparr>role = ''agent'',
              content = concat (map data.content (filter (\<lambda>d. type d = ''token'') evs)),
              chart_data = None, streaming = Some False\<rparr>]) \<and>
     (trim (input s) \<noteq> [] \<and> (\<forall>l \<in> set ls. CHR 0x0A \<notin> set l \<and> trim l \<noteq> []) \<and>
      map P ls = map Some (evs @ [e]) \<and>
      concat body = concat (map (\<lambda>l. l @ [CHR 0x0A]) ls) \<longrightarrow>
        messages (handleSubmit P created (FetchResponse True body Done) s) =
          messages s @
            [\<lparr>role = ''user'', content = input s, chart_data = None, streaming = None\<rparr>,
             \<lparr>role = ''agent'',
               content = concat (map data.content (filter (\<lambda>d. type d = ''token'') evs)),
               chart_data = None, streaming = Some False\<rparr>]) \<and>
     map content (messages (dispatch_event e s)) = map content (messages s) \<and>
     map (\<lambda>m. m\<lparr>streaming := None\<rparr>) (messages (dispatch_event e s)) =
       map (\<lambda>m. m\<lparr>streaming := None\<rparr>) (messages s) \<and>
     butlast (messages (dispatch_event e s)) = butlast (messages s) \<and>
     (\<not> (messages s \<noteq> [] \<and> streaming (last (messages s)) = Some True) \<longrightarrow>
        messages (dispatch_event e s) = messages s)"
proof (intro conjI impI)
  assume "\<not> (messages s \<noteq> [] \<and> role (last (messages s)) = ''agent'' \<and>
          streaming (last (messages s)) = Some True)"
  then show "messages (fold dispatch_event (evs @ [e]) s) =
          messages s @
            [\<lparr>role = ''agent'',
              content = concat (map data.content (filter (\<lambda>d. type d = ''token'') evs)),
              chart_data = None, streaming = Some False\<rparr>]"
    by (rule token_run [OF assms])
next
  assume h: "trim (input s) \<noteq> [] \<and> (\<forall>l \<in> set ls. CHR 0x0A \<notin> set l \<and> trim l \<noteq> []) \<and>
      map P ls = map Some (evs @ [e]) \<and>
      concat body = concat (map (\<lambda>l. l @ [CHR 0x0A]) ls)"
  let ?s2 = "submit_begin created s"
  have lines: "butlast (split_nl (concat body)) = ls"
    using h split_nl_lines [of ls] by simp
  have "for_lines P ls ?s2 = fold dispatch_event (evs @ [e]) ?s2"
    by (rule for_lines_fold) (use h in auto)
  then have "submit_stream P (FetchResponse True body Done) ?s2 =
        Returned (fold dispatch_event (evs @ [e]) ?s2)"
    by (simp only: submit_stream_def read_loop_start lines fetch_result.case
          stream_end.case not_True_eq_False if_False)
  moreover have "messages (fold dispatch_event (evs @ [e]) ?s2) =
        messages ?s2 @
          [\<lparr>role = ''agent'',
            content = concat (map data.content (filter (\<lambda>d. type d = ''token'') evs)),
            chart_data = None, streaming = Some False\<rparr>]"
    by (rule token_run [OF assms]) (simp add: messages_submit_begin)
  ultimately show "messages (handleSubmit P created (FetchResponse True body Done) s) =
          messages s @
            [\<lparr>role = ''user'', content = input s, chart_data = None, streaming = None\<rparr>,
             \<lparr>role = ''agent'',
               content = concat (map data.content (filter (\<lambda>d. type d = ''token'') evs)),
               chart_data = None, streaming = Some False\<rparr>]"
    using h by (simp add: handleSubmit_unfold messages_submit_begin)
next
  show "map content (messages (dispatch_event e s)) = map content (messages s)"
    using assms(3) by (simp add: dispatch_event_def finalize_stream_frame)
  show "map (\<lambda>m. m\<lparr>streaming := None\<rparr>) (messages (dispatch_event e s)) =
       map (\<lambda>m. m\<lparr>streaming := None\<rparr>) (messages s)"
    using assms(3) by (simp add: dispatch_event_def finalize_stream_frame)
  show "butlast (messages (dispatch_event e s)) = butlast (messages s)"
    using assms(3) by (simp add: dispatch_event_def finalize_stream_frame)
next
  assume "\<not> (messages s \<noteq> [] \<and> streaming (last (messages s)) = Some True)"
  then show "messages (dispatch_event e s) = messages s"
    using assms(3) by (auto simp: dispatch_event_def finalize_stream_def)
qed

theorem token_run_builds_one_message_witness:
  "filter (\<lambda>d. type d = ''token'')
     [\<lparr>type = ''status'', content = ''Thinking'', chart_data = None :: nat list option,
        chart_type = None\<rparr>,
      \<lparr>type = ''token'', content = ''ab'', chart_data = None, chart_type = None\<rparr>,
      \<lparr>type = ''token'', content = ''ab'', chart_data = None, chart_type = None\<rparr>] \<noteq> [] \<and>
   trim (input sample_state) \<noteq> [] \<and>
   trim ''s'' \<noteq> [] \<and> trim ''t'' \<noteq> [] \<and> trim ''e'' \<noteq> [] \<and>
   map sample_parse [''s'', ''t'', ''t'', ''e''] =
     map Some
       [\<lparr>type = ''status'', content = ''Thinking'', chart_data = None, chart_type = None\<rparr>,
        \<lparr>type = ''token'', content = ''ab'', chart_data = None, chart_type = None\<rparr>,
        \<lparr>type = ''token'', content = ''ab'', chart_data = None, chart_type = None\<rparr>,
        \<lparr>type = ''answer_end'', content = [], chart_data = None, chart_type = None\<rparr>] \<and>
   concat [''s'' @ [CHR 0x0A] @ ''t'' @ [CHR 0x0A] @ ''t'', [CHR 0x0A] @ ''e'' @ [CHR 0x0A]] =
     concat (map (\<lambda>l. l @ [CHR 0x0A]) [''s'', ''t'', ''t'', ''e'']) \<and>
   messages (handleSubmit sample_parse Rejected
      (FetchResponse True
         [''s'' @ [CHR 0x0A] @ ''t'' @ [CHR 0x0A] @ ''t'', [CHR 0x0A] @ ''e'' @ [CHR 0x0A]] Done)
      sample_state) =
     [greeting,
      \<lparr>role = ''user'', content = ''hi'', chart_data = None, streaming = None\<rparr>,
      \<lparr>role = ''agent'', content = ''abab'', chart_data = None, streaming = Some False\<rparr>]"
  using token_run_builds_one_message
    [where evs = "[\<lparr>type = ''status'', content = ''Thinking'',
                     chart_data = None :: nat list option, chart_type = None\<rparr>,
                   \<lparr>type = ''token'', content = ''ab'', chart_data = None, chart_type = None\<rparr>,
                   \<lparr>type = ''token'', content = ''ab'', chart_data = None, chart_type = None\<rparr>]"
       and e = "\<lparr>type = ''answer_end'', content = [], chart_data = None, chart_type = None\<rparr>"
       and s = sample_state and ls = "[''s'', ''t'', ''t'', ''e'']" and P = sample_parse
       and body = "[''s'' @ [CHR 0x0A] @ ''t'' @ [CHR 0x0A] @ ''t'',
                    [CHR 0x0A] @ ''e'' @ [CHR 0x0A]]"
       and created = Rejected]
  by (simp add: sample_state_def sample_parse_def trim_def js_whitespace_def)

text \<open>
  C2. A non-blank line that parses is dispatched on its \<open>type\<close>. \<open>status\<close> replaces the status
  text and nothing else; \<open>log\<close> changes nothing. \<open>token\<close> appends its text to the content of
  the last message when that is a streaming agent message, and otherwise appends a new
  streaming agent message holding the text; \<open>answer_end\<close> sets the streaming flag of a
  streaming last message to false and otherwise leaves the messages as they are; so a
  token line followed by an \<open>answer_end\<close> line builds one finished agent message. \<open>answer\<close>
  appends one agent message with the content and the \<open>chart_data\<close> of the event; \<open>error\<close>
  appends one agent error message; the last four also clear the status text. A line of
  any other type changes nothing.
\<close>

theorem process_line_dispatch:
  assumes "trim line \<noteq> []" and "JSON_parse line = Some d"
  shows
    "(type d = ''status'' \<longrightarrow>
        process_line JSON_parse line s = s\<lparr>chat_state.status := data.content d\<rparr>) \<and>
     (type d = ''log'' \<longrightarrow> process_line JSON_parse line s = s) \<and>
     (type d = ''token'' \<and> messages s \<noteq> [] \<and> role (last (messages s)) = ''agent'' \<and>
      streaming (last (messages s)) = Some True \<longrightarrow>
        process_line JSON_parse line s =
          s\<lparr>messages := butlast (messages s) @
               [(last (messages s))
                  \<lparr>content := content (last (messages s)) @ data.content d\<rparr>],
            chat_state.status := []\<rparr>) \<and>
     (type d = ''token'' \<and>
      \<not> (messages s \<noteq> [] \<and> role (last (messages s)) = ''agent'' \<and>
         streaming (last (messages s)) = Some True) \<longrightarrow>
        process_line JSON_parse line s =
          s\<lparr>messages := messages s @
               [\<lparr>role = ''agent'', content = data.content d, chart_data = None,
                 streaming = Some True\<rparr>],
            chat_state.status := []\<rparr>) \<and>
     (type d = ''token'' \<longrightarrow>
        concat (map content (messages (process_line JSON_parse line s))) =
          concat (map content (messages s)) @ data.content d) \<and>
     (type d = ''answer_end'' \<and> messages s \<noteq> [] \<and>
      streaming (last (messages s)) = Some True \<longrightarrow>
        process_line JSON_parse line s =
          s\<lparr>messages := butlast (messages s) @
               [(last (messages s))\<lparr>streaming := Some False\<rparr>],
            chat_state.status := []\<rparr>) \<and>
     (type d = ''answer_end'' \<and>
      \<not> (messages s \<noteq> [] \<and> streaming (last (messages s)) = Some True) \<longrightarrow>
        process_line JSON_parse line s = s\<lparr>chat_state.status := []\<rparr>) \<and>
     (type d = ''token'' \<and> trim line' \<noteq> [] \<and> JSON_parse line' = Some d' \<and>
      type d' = ''answer_end'' \<and>
      \<not> (messages s \<noteq> [] \<and> role (last (messages s)) = ''agent'' \<and>
         streaming (last (messages s)) = Some True) \<longrightarrow>
        for_lines JSON_parse [line, line'] s =
          s\<lparr>messages := messages s @
               [\<lparr>role = ''agent'', content = data.content d, chart_data = None,
                 streaming = Some False\<rparr>],
            chat_state.status := []\<rparr>) \<and>
     (type d = ''answer'' \<longrightarrow>
        process_line JSON_parse line s =
          s\<lparr>messages := messages s @
               [\<lparr>role = ''agent'', content = data.content d,
                 chart_data = data.chart_data d, streaming = None\<rparr>],
            chat_state.status := []\<rparr>) \<and>
     (type d = ''error'' \<longrightarrow>
        process_line JSON_parse line s =
          s\<lparr>messages := messages s @
               [\<lparr>role = ''agent'', content = ''Error: '' @ data.content d,
                 chart_data = None, streaming = None\<rparr>],
            chat_state.status := []\<rparr>) \<and>
     (type d \<noteq> ''status'' \<and> type d \<noteq> ''log'' \<and> type d \<noteq> ''token'' \<and>
      type d \<noteq> ''answer_end'' \<and> type d \<noteq> ''answer'' \<and> type d \<noteq> ''error'' \<longrightarrow>
        process_line JSON_parse line s = s)"
proof -
  have pl: "process_line JSON_parse line s = dispatch_event d s" for s
    using assms by (simp add: process_line_def)
  have tok: "concat (map content (append_token d prev)) =
             concat (map content prev) @ data.content d" for prev :: "'a message list"
  proof (cases "prev = []")
    case True
    then show ?thesis by (simp add: append_token_def)
  next
    case False
    then obtain ys y where "prev = ys @ [y]"
      by (metis append_butlast_last_id)
    then show ?thesis by (simp add: append_token_def)
  qed
  have pair: "for_lines JSON_parse [line, line'] s =
          s\<lparr>messages := messages s @
               [\<lparr>role = ''agent'', content = data.content d, chart_data = None,
                 streaming = Some False\<rparr>],
            chat_state.status := []\<rparr>"
    if "type d = ''token''" "trim line' \<noteq> []" "JSON_parse line' = Some d'"
      "type d' = ''answer_end''"
      "\<not> (messages s \<noteq> [] \<and> role (last (messages s)) = ''agent'' \<and>
         streaming (last (messages s)) = Some True)"
  proof -
    have "process_line JSON_parse line' s' = dispatch_event d' s'" for s'
      using that(2,3) by (simp add: process_line_def)
    then show ?thesis
      using that(1,4,5)
      by (auto simp: pl dispatch_event_def append_token_def finalize_stream_def)
  qed
  have 1: "type d = ''status'' \<longrightarrow>
        process_line JSON_parse line s = s\<lparr>chat_state.status := data.content d\<rparr>"
    by (simp add: pl dispatch_event_def)
  have 2: "type d = ''log'' \<longrightarrow> process_line JSON_parse line s = s"
    by (simp add: pl dispatch_event_def)
  have 3: "type d = ''token'' \<and> messages s \<noteq> [] \<and> role (last (messages s)) = ''agent'' \<and>
      streaming (last (messages s)) = Some True \<longrightarrow>
        process_line JSON_parse line s =
          s\<lparr>messages := butlast (messages s) @
               [(last (messages s))
                  \<lparr>content := content (last (messages s)) @ data.content d\<rparr>],
            chat_state.status := []\<rparr>"
    by (simp add: pl dispatch_event_def append_token_def)
  have 4: "type d = ''token'' \<and>
      \<not> (messages s \<noteq> [] \<and> role (last (messages s)) = ''agent'' \<and>
         streaming (last (messages s)) = Some True) \<longrightarrow>
        process_line JSON_parse line s =
          s\<lparr>messages := messages s @
               [\<lparr>role = ''agent'', content = data.content d, chart_data = None,
                 streaming = Some True\<rparr>],
            chat_state.status := []\<rparr>"
    by (auto simp: pl dispatch_event_def append_token_def)
  have 5: "type d = ''token'' \<longrightarrow>
        concat (map content (messages (process_line JSON_parse line s))) =
          concat (map content (messages s)) @ data.content d"
    by (simp add: pl dispatch_event_def tok)
  have 6: "type d = ''answer_end'' \<and> messages s \<noteq> [] \<and>
      streaming (last (messages s)) = Some True \<longrightarrow>
        process_line JSON_parse line s =
          s\<lparr>messages := butlast (messages s) @
               [(last (messages s))\<lparr>streaming := Some False\<rparr>],
            chat_state.status := []\<rparr>"
    by (simp add: pl dispatch_event_def finalize_stream_def)
  have 7: "type d = ''answer_end'' \<and>
      \<not> (messages s \<noteq> [] \<and> streaming (last (messages s)) = Some True) \<longrightarrow>
        process_line JSON_parse line s = s\<lparr>chat_state.status := []\<rparr>"
    by (auto simp: pl dispatch_event_def finalize_stream_def)
  have 8: "type d = ''answer'' \<longrightarrow>
        process_line JSON_parse line s =
          s\<lparr>messages := messages s @
               [\<lparr>role = ''agent'', content = data.content d,
                 chart_data = data.chart_data d, streaming = None\<rparr>],
            chat_state.status := []\<rparr>"
    by (simp add: pl dispatch_event_def)
  have 9: "type d = ''error'' \<longrightarrow>
        process_line JSON_parse line s =
          s\<lparr>messages := messages s @
               [\<lparr>role = ''agent'', content = ''Error: '' @ data.content d,
                 chart_data = None, streaming = None\<rparr>],
            chat_state.status := []\<rparr>"
    by (simp add: pl dispatch_event_def)
  have 10: "type d \<noteq> ''status'' \<and> type d \<noteq> ''log'' \<and> type d \<noteq> ''token'' \<and>
      type d \<noteq> ''answer_end'' \<and> type d \<noteq> ''answer'' \<and> type d \<noteq> ''error'' \<longrightarrow>
        process_line JSON_parse line s = s"
    by (simp add: pl dispatch_event_def)
  from 1 2 3 4 5 6 7 pair 8 9 10 show ?thesis by blast
qed

theorem process_line_dispatch_witness:
  "trim ''t'' \<noteq> [] \<and> trim ''e'' \<noteq> [] \<and>
   sample_parse ''t'' = Some \<lparr>type = ''token'', content = ''ab'', chart_data = None, chart_type = None\<rparr> \<and>
   sample_parse ''e'' = Some \<lparr>type = ''answer_end'', content = [], chart_data = None, chart_type = None\<rparr> \<and>
   process_line sample_parse ''t'' ChatPage_init =
     ChatPage_init\<lparr>messages := [greeting, \<lparr>role = ''agent'', content = ''ab'', chart_data = None, streaming = Some True\<rparr>], chat_state.status := []\<rparr> \<and>
   process_line sample_parse ''t''
     (ChatPage_init\<lparr>messages := [greeting, \<lparr>role = ''agent'', content = ''ab'', chart_data = None, streaming = Some True\<rparr>], chat_state.status := []\<rparr>) =
     ChatPage_init\<lparr>messages := [greeting, \<lparr>role = ''agent'', content = ''abab'', chart_data = None, streaming = Some True\<rparr>], chat_state.status := []\<rparr> \<and>
   process_line sample_parse ''e''
     (ChatPage_init\<lparr>messages := [greeting, \<lparr>role = ''agent'', content = ''abab'', chart_data = None, streaming = Some True\<rparr>], chat_state.status := []\<rparr>) =
     ChatPage_init\<lparr>messages := [greeting, \<lparr>role = ''agent'', content = ''abab'', chart_data = None, streaming = Some False\<rparr>], chat_state.status := []\<rparr> \<and>
   for_lines sample_parse [''t'', ''e''] ChatPage_init =
     ChatPage_init\<lparr>messages := [greeting, \<lparr>role = ''agent'', content = ''ab'', chart_data = None, streaming = Some False\<rparr>], chat_state.status := []\<rparr>"
proof -
  have h: "trim ''t'' \<noteq> [] \<and> trim ''e'' \<noteq> [] \<and>
      sample_parse ''t'' = Some \<lparr>type = ''token'', content = ''ab'', chart_data = None, chart_type = None\<rparr> \<and>
      sample_parse ''e'' = Some \<lparr>type = ''answer_end'', content = [], chart_data = None, chart_type = None\<rparr>"
    by (simp add: trim_def js_whitespace_def sample_parse_def)
  have m: "messages (ChatPage_init :: nat chat_state) = [greeting] \<and>
      streaming (greeting :: nat message) = None"
    by (simp add: ChatPage_init_def greeting_def)
  have 1: "process_line sample_parse ''t'' ChatPage_init =
     ChatPage_init\<lparr>messages := [greeting, \<lparr>role = ''agent'', content = ''ab'', chart_data = None, streaming = Some True\<rparr>], chat_state.status := []\<rparr>"
    using h process_line_dispatch
      [where line = "''t''" and JSON_parse = sample_parse and d = "\<lparr>type = ''token'', content = ''ab'', chart_data = None, chart_type = None\<rparr>"
         and s = "ChatPage_init"
         and line' = "''e''" and d' = "\<lparr>type = ''answer_end'', content = [], chart_data = None, chart_type = None\<rparr>"]
    by (simp add: m)
  have 2: "process_line sample_parse ''t''
     (ChatPage_init\<lparr>messages := [greeting, \<lparr>role = ''agent'', content = ''ab'', chart_data = None, streaming = Some True\<rparr>], chat_state.status := []\<rparr>) =
     ChatPage_init\<lparr>messages := [greeting, \<lparr>role = ''agent'', content = ''abab'', chart_data = None, streaming = Some True\<rparr>], chat_state.status := []\<rparr>"
    using h process_line_dispatch
      [where line = "''t''" and JSON_parse = sample_parse and d = "\<lparr>type = ''token'', content = ''ab'', chart_data = None, chart_type = None\<rparr>"
         and s = "ChatPage_init\<lparr>messages := [greeting, \<lparr>role = ''agent'', content = ''ab'', chart_data = None, streaming = Some True\<rparr>], chat_state.status := []\<rparr>"
         and line' = "''e''" and d' = "\<lparr>type = ''answer_end'', content = [], chart_data = None, chart_type = None\<rparr>"]
    by (simp add: m)
  have 3: "process_line sample_parse ''e''
     (ChatPage_init\<lparr>messages := [greeting, \<lparr>role = ''agent'', content = ''abab'', chart_data = None, streaming = Some True\<rparr>], chat_state.status := []\<rparr>) =
     ChatPage_init\<lparr>messages := [greeting, \<lparr>role = ''agent'', content = ''abab'', chart_data = None, streaming = Some False\<rparr>], chat_state.status := []\<rparr>"
    using h process_line_dispatch
      [where line = "''e''" and JSON_parse = sample_parse and d = "\<lparr>type = ''answer_end'', content = [], chart_data = None, chart_type = None\<rparr>"
         and s = "ChatPage_init\<lparr>messages := [greeting, \<lparr>role = ''agent'', content = ''abab'', chart_data = None, streaming = Some True\<rparr>], chat_state.status := []\<rparr>"
         and line' = "''e''" and d' = "\<lparr>type = ''answer_end'', content = [], chart_data = None, chart_type = None\<rparr>"]
    by (simp add: m)
  have 4: "for_lines sample_parse [''t'', ''e''] ChatPage_init =
     ChatPage_init\<lparr>messages := [greeting, \<lparr>role = ''agent'', content = ''ab'', chart_data = None, streaming = Some False\<rparr>], chat_state.status := []\<rparr>"
    using h process_line_dispatch
      [where line = "''t''" and JSON_parse = sample_parse and d = "\<lparr>type = ''token'', content = ''ab'', chart_data = None, chart_type = None\<rparr>"
         and s = "ChatPage_init"
         and line' = "''e''" and d' = "\<lparr>type = ''answer_end'', content = [], chart_data = None, chart_type = None\<rparr>"]
    by (simp add: m del: for_lines.simps)
  from h 1 2 3 4 show ?thesis by (simp only: simp_thms)
qed




text \<open>
  C9. The result of the reader loop depends only on the concatenation of the chunks read,
  not on where the text is cut into chunks; and when the text is a sequence of lines, each
  ended by a line feed, the loop processes exactly these lines, each once, in order. The
  same holds for \<open>handleSubmit\<close> as a whole.
\<close>

theorem read_loop_rechunk:
  "(concat cs = concat ds \<longrightarrow>
      read_loop P cs e [] s = read_loop P ds e [] s \<and>
      handleSubmit P created (FetchResponse ok cs e) s =
        handleSubmit P created (FetchResponse ok ds e) s) \<and>
   ((\<forall>l \<in> set ls. CHR 0x0A \<notin> set l) \<and>
    concat cs = concat (map (\<lambda>l. l @ [CHR 0x0A]) ls) \<longrightarrow>
      read_loop P cs e [] s =
        (case e of Done \<Rightarrow> Returned (for_lines P ls s)
                 | ReadError \<Rightarrow> Thrown (for_lines P ls s)))"
proof (intro conjI impI)
  assume eq: "concat cs = concat ds"
  have "read_loop P xs e [] s =
        (case e of Done \<Rightarrow> Returned (for_lines P (butlast (split_nl (concat xs))) s)
                 | ReadError \<Rightarrow> Thrown (for_lines P (butlast (split_nl (concat xs))) s))"
    for xs s
    using read_loop_eq [of "[]" P xs e s] by (cases e) simp_all
  then show loop: "read_loop P cs e [] s = read_loop P ds e [] s" for s
    by (simp only: eq)
  show "handleSubmit P created (FetchResponse ok cs e) s =
        handleSubmit P created (FetchResponse ok ds e) s"
    by (simp only: handleSubmit_def submit_stream_def fetch_result.case loop)
next
  assume "(\<forall>l \<in> set ls. CHR 0x0A \<notin> set l) \<and>
          concat cs = concat (map (\<lambda>l. l @ [CHR 0x0A]) ls)"
  then show "read_loop P cs e [] s =
        (case e of Done \<Rightarrow> Returned (for_lines P ls s)
                 | ReadError \<Rightarrow> Thrown (for_lines P ls s))"
    using read_loop_eq [of "[]" P cs e s] by (cases e) (simp_all add: split_nl_lines)
qed

theorem read_loop_rechunk_witness:
  "concat [''t'', [CHR 0x0A], ''te'' @ [CHR 0x0A]] =
     concat [''t'' @ [CHR 0x0A] @ ''t'', ''e'' @ [CHR 0x0A]] \<and>
   CHR 0x0A \<notin> set ''t'' \<and> CHR 0x0A \<notin> set ''te'' \<and>
   concat [''t'', [CHR 0x0A], ''te'' @ [CHR 0x0A]] =
     concat (map (\<lambda>l. l @ [CHR 0x0A]) [''t'', ''te'']) \<and>
   read_loop sample_parse [''t'', [CHR 0x0A], ''te'' @ [CHR 0x0A]] Done [] ChatPage_init =
     read_loop sample_parse [''t'' @ [CHR 0x0A] @ ''t'', ''e'' @ [CHR 0x0A]] Done []
       ChatPage_init \<and>
   read_loop sample_parse [''t'', [CHR 0x0A], ''te'' @ [CHR 0x0A]] Done [] ChatPage_init =
     Returned (for_lines sample_parse [''t'', ''te''] ChatPage_init)"
  using read_loop_rechunk
    [where cs = "[''t'', [CHR 0x0A], ''te'' @ [CHR 0x0A]]"
       and ds = "[''t'' @ [CHR 0x0A] @ ''t'', ''e'' @ [CHR 0x0A]]"
       and ls = "[''t'', ''te'']" and P = sample_parse and e = Done
       and s = "ChatPage_init :: nat chat_state"]
  by simp

section \<open>Properties of the thread handlers\<close>

text \<open>
  C5. \<open>loadThread\<close> never fails: a rejected request leaves the state as it is. A result
  without messages displays exactly the greeting; a non-empty result displays exactly the
  fetched messages, with their roles, contents and chart data. So creating a thread and
  loading it at once, when the server has no message for it or the request fails, shows
  the single greeting, with the new thread active.
\<close>

theorem loadThread_after_create:
  "loadThread t Rejected s = s \<and>
   messages (loadThread t (Resolved []) s) = [greeting] \<and>
   (items \<noteq> [] \<longrightarrow>
      messages (loadThread t (Resolved items) s) = map item_message items \<and>
      map role (messages (loadThread t (Resolved items) s)) = map item.role items \<and>
      map content (messages (loadThread t (Resolved items) s)) = map item.content items \<and>
      map chart_data (messages (loadThread t (Resolved items) s)) =
        map (\<lambda>i. case metadata i of None \<Rightarrow> None | Some md \<Rightarrow> metadata.chart_data md) items) \<and>
   messages (loadThread (thread_id r) (Resolved []) (createNewThread (Resolved r) s)) =
     [greeting] \<and>
   messages (loadThread (thread_id r) Rejected (createNewThread (Resolved r) s)) =
     [greeting] \<and>
   activeThreadId (loadThread (thread_id r) res (createNewThread (Resolved r) s)) =
     Some (thread_id r)"
  by (cases res) (simp_all add: loadThread_def createNewThread_def item_message_def comp_def Let_def)

theorem loadThread_after_create_witness:
  "[\<lparr>item.role = ''user'', content = ''q'', metadata = None\<rparr>,
    \<lparr>item.role = ''agent'', content = ''a'', metadata = Some \<lparr>metadata.chart_data = Some [1]\<rparr>\<rparr>] \<noteq> [] \<and>
   messages (loadThread ''t1''
      (Resolved [\<lparr>item.role = ''user'', content = ''q'', metadata = None\<rparr>,
                 \<lparr>item.role = ''agent'', content = ''a'',
                   metadata = Some \<lparr>metadata.chart_data = Some [1]\<rparr>\<rparr>])
      sample_state) =
     [\<lparr>role = ''user'', content = ''q'', chart_data = None, streaming = None\<rparr>,
      \<lparr>role = ''agent'', content = ''a'', chart_data = Some [1], streaming = None\<rparr>]"
  using loadThread_after_create
    [where items = "[\<lparr>item.role = ''user'', content = ''q'', metadata = None\<rparr>,
                     \<lparr>item.role = ''agent'', content = ''a'',
                       metadata = Some \<lparr>metadata.chart_data = Some [1::nat]\<rparr>\<rparr>]"
       and t = "''t1''" and s = sample_state]
  by (simp add: item_message_def)

text \<open>
  C6. \<open>createNewThread\<close> and the auto-create path of \<open>handleSubmit\<close> put the new thread at
  the head of the list and keep the other threads in their order; \<open>handleSubmit\<close> with an
  active thread leaves the list as it is. So, for any creation time of the threads, a list
  that is newest-first stays so when the new thread is at least as new as the others.
\<close>

theorem new_thread_prepended:
  "threads (createNewThread (Resolved r) s) =
     \<lparr>thread_id = thread_id r, title = title r\<rparr> # threads s \<and>
   (trim (input s) \<noteq> [] \<and> falsy (activeThreadId s) \<longrightarrow>
      threads (handleSubmit P (Resolved r) fetched s) =
        \<lparr>thread_id = thread_id r, title = title r\<rparr> # threads s) \<and>
   (trim (input s) \<noteq> [] \<and> \<not> falsy (activeThreadId s) \<longrightarrow>
      threads (handleSubmit P (Resolved r) fetched s) = threads s) \<and>
   (sorted_wrt (\<lambda>a b. created b \<le> created a) (threads s) \<and>
    (\<forall>x \<in> set (threads s). created x \<le> created \<lparr>thread_id = thread_id r, title = title r\<rparr>) \<longrightarrow>
      sorted_wrt (\<lambda>a b. (created b :: nat) \<le> created a)
        (threads (createNewThread (Resolved r) s)) \<and>
      (trim (input s) \<noteq> [] \<longrightarrow>
         sorted_wrt (\<lambda>a b. created b \<le> created a)
           (threads (handleSubmit P (Resolved r) fetched s))))"
proof -
  have c: "threads (createNewThread (Resolved r) s) =
           \<lparr>thread_id = thread_id r, title = title r\<rparr> # threads s"
    by (simp add: createNewThread_def)
  have b: "threads (submit_begin (Resolved r) s) =
           (if falsy (activeThreadId s)
            then \<lparr>thread_id = thread_id r, title = title r\<rparr> # threads s else threads s)"
    by (simp add: submit_begin_def Let_def)
  show ?thesis
    unfolding c by (auto simp: handleSubmit_threads b)
qed

theorem new_thread_prepended_witness:
  "trim (input (sample_state\<lparr>activeThreadId := None\<rparr>)) \<noteq> [] \<and>
   falsy (activeThreadId (sample_state\<lparr>activeThreadId := None\<rparr>)) \<and>
   trim (input sample_state) \<noteq> [] \<and> \<not> falsy (activeThreadId sample_state) \<and>
   sorted_wrt (\<lambda>a b. sample_created b \<le> sample_created a)
     (threads (sample_state\<lparr>activeThreadId := None\<rparr>)) \<and>
   threads (handleSubmit sample_parse (Resolved \<lparr>thread_id = ''t3'', title = ''New Chat''\<rparr>)
      FetchRejected (sample_state\<lparr>activeThreadId := None\<rparr>)) =
     [\<lparr>thread_id = ''t3'', title = ''New Chat''\<rparr>, \<lparr>thread_id = ''t2'', title = ''second''\<rparr>,
      \<lparr>thread_id = ''t1'', title = ''first''\<rparr>] \<and>
   sorted_wrt (\<lambda>a b. sample_created b \<le> sample_created a)
     (threads (handleSubmit sample_parse (Resolved \<lparr>thread_id = ''t3'', title = ''New Chat''\<rparr>)
        FetchRejected (sample_state\<lparr>activeThreadId := None\<rparr>))) \<and>
   threads (handleSubmit sample_parse (Resolved \<lparr>thread_id = ''t3'', title = ''New Chat''\<rparr>)
      FetchRejected sample_state) = threads sample_state"
  using new_thread_prepended
    [where s = "sample_state\<lparr>activeThreadId := None\<rparr>" and P = sample_parse
       and r = "\<lparr>thread_id = ''t3'', title = ''New Chat''\<rparr>" and fetched = FetchRejected
       and created = sample_created]
    new_thread_prepended
    [where s = sample_state and P = sample_parse
       and r = "\<lparr>thread_id = ''t3'', title = ''New Chat''\<rparr>" and fetched = FetchRejected
       and created = sample_created]
  by (simp add: sample_state_def sample_created_def trim_def js_whitespace_def falsy_def)

text \<open>
  What \<open>deleteThread\<close> does when the \<open>DELETE\<close> succeeds: the thread list afterwards is the
  list before without the threads whose id is the deleted one, the others in their order.
  If another thread was active, nothing else changes. If the deleted thread was active and
  threads remain, \<open>loadThread\<close> is run for the first of them, which is a thread of the old
  list with another id; if none remain, the active id is cleared and the chat shows the
  single greeting.
\<close>

lemma deleteThread_frame:
  "threads (deleteThread t (Resolved u) res s) =
     filter (\<lambda>x. thread_id x \<noteq> t) (threads s) \<and>
   (activeThreadId s \<noteq> Some t \<longrightarrow>
      deleteThread t (Resolved u) res s =
        s\<lparr>threads := filter (\<lambda>x. thread_id x \<noteq> t) (threads s)\<rparr>) \<and>
   (activeThreadId s = Some t \<and> filter (\<lambda>x. thread_id x \<noteq> t) (threads s) \<noteq> [] \<longrightarrow>
      deleteThread t (Resolved u) res s =
        loadThread (thread_id (hd (filter (\<lambda>x. thread_id x \<noteq> t) (threads s)))) res
          (s\<lparr>threads := filter (\<lambda>x. thread_id x \<noteq> t) (threads s)\<rparr>) \<and>
      thread_id (hd (filter (\<lambda>x. thread_id x \<noteq> t) (threads s))) \<noteq> t \<and>
      hd (filter (\<lambda>x. thread_id x \<noteq> t) (threads s)) \<in> set (threads s) \<and>
      activeThreadId (deleteThread t (Resolved u) (Resolved items) s) =
        Some (thread_id (hd (filter (\<lambda>x. thread_id x \<noteq> t) (threads s))))) \<and>
   (activeThreadId s = Some t \<and> filter (\<lambda>x. thread_id x \<noteq> t) (threads s) = [] \<longrightarrow>
      activeThreadId (deleteThread t (Resolved u) res s) = None \<and>
      messages (deleteThread t (Resolved u) res s) = [greeting])"
proof -
  let ?rem = "filter (\<lambda>x. thread_id x \<noteq> t) (threads s)"
  have mem: "hd ?rem \<in> set ?rem" if "?rem \<noteq> []"
    using that by (rule hd_in_set)
  have 1: "threads (deleteThread t (Resolved u) res s) = ?rem"
    by (simp add: deleteThread_def Let_def loadThread_threads handleResetChat_def)
  have 2: "activeThreadId s \<noteq> Some t \<longrightarrow>
      deleteThread t (Resolved u) res s = s\<lparr>threads := ?rem\<rparr>"
    by (simp add: deleteThread_def Let_def)
  have 3: "deleteThread t (Resolved u) r' s =
        loadThread (thread_id (hd ?rem)) r' (s\<lparr>threads := ?rem\<rparr>)"
    if "activeThreadId s = Some t" "?rem \<noteq> []" for r'
    using that by (simp add: deleteThread_def Let_def hd_conv_nth)
  have 4: "activeThreadId s = Some t \<and> ?rem = [] \<longrightarrow>
      activeThreadId (deleteThread t (Resolved u) res s) = None \<and>
      messages (deleteThread t (Resolved u) res s) = [greeting]"
    by (simp add: deleteThread_def Let_def handleResetChat_def)
  have 5: "thread_id (hd ?rem) \<noteq> t \<and> hd ?rem \<in> set (threads s)" if "?rem \<noteq> []"
    using mem [OF that] by simp
  have 6: "activeThreadId (loadThread i (Resolved items) s') = Some i" for i s'
    by (simp add: loadThread_def Let_def)
  have 7: "activeThreadId s = Some t \<and> ?rem \<noteq> [] \<longrightarrow>
      deleteThread t (Resolved u) res s =
        loadThread (thread_id (hd ?rem)) res (s\<lparr>threads := ?rem\<rparr>) \<and>
      thread_id (hd ?rem) \<noteq> t \<and> hd ?rem \<in> set (threads s) \<and>
      activeThreadId (deleteThread t (Resolved u) (Resolved items) s) =
        Some (thread_id (hd ?rem))"
  proof
    assume a: "activeThreadId s = Some t \<and> ?rem \<noteq> []"
    then have "deleteThread t (Resolved u) (Resolved items) s =
        loadThread (thread_id (hd ?rem)) (Resolved items) (s\<lparr>threads := ?rem\<rparr>)"
      by (intro 3) simp_all
    then have "activeThreadId (deleteThread t (Resolved u) (Resolved items) s) =
        Some (thread_id (hd ?rem))"
      by (simp only: 6)
    moreover have "deleteThread t (Resolved u) res s =
        loadThread (thread_id (hd ?rem)) res (s\<lparr>threads := ?rem\<rparr>)"
      using a by (intro 3) simp_all
    ultimately show "deleteThread t (Resolved u) res s =
        loadThread (thread_id (hd ?rem)) res (s\<lparr>threads := ?rem\<rparr>) \<and>
      thread_id (hd ?rem) \<noteq> t \<and> hd ?rem \<in> set (threads s) \<and>
      activeThreadId (deleteThread t (Resolved u) (Resolved items) s) =
        Some (thread_id (hd ?rem))"
      using 5 a by blast
  qed
  from 1 2 7 4 show ?thesis by blast
qed

text \<open>
  C7. Deleting the active thread should load another remaining thread or, when none
  remains, clear the active id and reset the chat (the source says "Select another thread
  or reset"). The code misses this when the \<open>DELETE\<close> succeeds, threads remain and the \<open>GET\<close>
  of the \<open>loadThread\<close> it starts is rejected: the \<open>catch\<close> of \<open>loadThread\<close> leaves the state as
  it is, so the deleted thread \<open>t2\<close> is gone from the list but is still the active one, and
  its messages are still displayed.
\<close>

theorem deleteThread_keeps_deleted_thread_active:
  "deleteThread ''t2'' (Resolved ()) Rejected
     (sample_state\<lparr>messages :=
        [greeting,
         \<lparr>role = ''user'', content = ''q'', chart_data = None, streaming = None\<rparr>,
         \<lparr>role = ''agent'', content = ''a'', chart_data = None, streaming = None\<rparr>]\<rparr>) =
   (sample_state\<lparr>messages :=
        [greeting,
         \<lparr>role = ''user'', content = ''q'', chart_data = None, streaming = None\<rparr>,
         \<lparr>role = ''agent'', content = ''a'', chart_data = None, streaming = None\<rparr>]\<rparr>)
     \<lparr>threads := [\<lparr>thread_id = ''t1'', title = ''first''\<rparr>]\<rparr> \<and>
   activeThreadId (deleteThread ''t2'' (Resolved ()) Rejected
     (sample_state\<lparr>messages :=
        [greeting,
         \<lparr>role = ''user'', content = ''q'', chart_data = None, streaming = None\<rparr>,
         \<lparr>role = ''agent'', content = ''a'', chart_data = None, streaming = None\<rparr>]\<rparr>)) = Some ''t2'' \<and>
   ''t2'' \<notin> set (map thread_id (threads (deleteThread ''t2'' (Resolved ()) Rejected
     (sample_state\<lparr>messages :=
        [greeting,
         \<lparr>role = ''user'', content = ''q'', chart_data = None, streaming = None\<rparr>,
         \<lparr>role = ''agent'', content = ''a'', chart_data = None, streaming = None\<rparr>]\<rparr>)))) \<and>
   messages (deleteThread ''t2'' (Resolved ()) Rejected
     (sample_state\<lparr>messages :=
        [greeting,
         \<lparr>role = ''user'', content = ''q'', chart_data = None, streaming = None\<rparr>,
         \<lparr>role = ''agent'', content = ''a'', chart_data = None, streaming = None\<rparr>]\<rparr>)) =
     [greeting,
      \<lparr>role = ''user'', content = ''q'', chart_data = None, streaming = None\<rparr>,
      \<lparr>role = ''agent'', content = ''a'', chart_data = None, streaming = None\<rparr>]"
  by (simp add: deleteThread_def loadThread_def sample_state_def)

section \<open>Properties of the chart rendering\<close>

text \<open>
  C8, as stated, fails for \<open>ChatPage\<close>: its \<open>answer\<close> handler drops \<open>chart_type\<close>, and its
  message list draws a line chart for every non-empty \<open>chart_data\<close>. An \<open>answer\<close> event with
  a chart payload and the type \<open>bar\<close> is rendered with a chart, and one with the type
  \<open>scatter_anomaly\<close> is rendered with the same line chart, not an anomaly chart.
\<close>

theorem ChatPage_chart_ignores_chart_type:
  "ChatPage_charts (last (messages (dispatch_event
      \<lparr>type = ''answer'', content = ''x'', chart_data = Some [7 :: nat],
        chart_type = Some ''bar''\<rparr> ChatPage_init))) = [LineChart [7]] \<and>
   ChatPage_charts (last (messages (dispatch_event
      \<lparr>type = ''answer'', content = ''x'', chart_data = Some [7 :: nat],
        chart_type = Some ''scatter_anomaly''\<rparr> ChatPage_init))) = [LineChart [7]]"
  by (simp add: dispatch_event_def ChatPage_charts_def ChatPage_init_def)

text \<open>
  C8, amended. In the \<open>AgentChat\<close> widget an agent message that carries a chart payload is
  rendered with the anomaly chart iff its \<open>chart_type\<close> is \<open>scatter_anomaly\<close>, with the
  forecast chart iff it is \<open>forecast\<close>, and with no chart for any other type; a message
  without payload, or of another role, has no chart. In \<open>ChatPage\<close> the \<open>chart_type\<close> plays no
  part: a message, and so the message of an \<open>answer\<close> event, is rendered with one line
  chart iff its \<open>chart_data\<close> is a non-empty array.
\<close>

theorem chart_selection:
  "(agent_chat_message.role m = ''agent'' \<and> agent_chat_message.chart_data m = Some d \<longrightarrow>
      AgentChat_charts m =
        (if agent_chat_message.chart_type m = Some ''scatter_anomaly'' then [AnomalyChart d]
         else if agent_chat_message.chart_type m = Some ''forecast'' then [ForecastChart d]
         else [])) \<and>
   (agent_chat_message.role m \<noteq> ''agent'' \<or> agent_chat_message.chart_data m = None \<longrightarrow>
      AgentChat_charts m = []) \<and>
   ChatPage_charts msg =
     (case chart_data msg of
        Some c \<Rightarrow> if c \<noteq> [] then [LineChart c] else []
      | None \<Rightarrow> []) \<and>
   (type ev = ''answer'' \<longrightarrow>
      ChatPage_charts (last (messages (dispatch_event ev s))) =
        (case data.chart_data ev of
           Some c \<Rightarrow> if c \<noteq> [] then [LineChart c] else []
         | None \<Rightarrow> []))"
  by (auto simp: AgentChat_charts_def ChatPage_charts_def dispatch_event_def
        split: option.splits)

theorem chart_selection_witness:
  "AgentChat_charts
     \<lparr>agent_chat_message.role = ''agent'', content = ''a'', chart_data = Some [7 :: nat],
       chart_type = Some ''forecast'', isStatus = None\<rparr> = [ForecastChart [7]] \<and>
   AgentChat_charts
     \<lparr>agent_chat_message.role = ''agent'', content = ''a'', chart_data = Some [7 :: nat],
       chart_type = Some ''bar'', isStatus = None\<rparr> = [] \<and>
   AgentChat_charts
     \<lparr>agent_chat_message.role = ''user'', content = ''a'', chart_data = Some [7 :: nat],
       chart_type = Some ''forecast'', isStatus = None\<rparr> = [] \<and>
   ChatPage_charts (last (messages (dispatch_event
      \<lparr>type = ''answer'', content = ''x'', chart_data = Some [7 :: nat],
        chart_type = Some ''forecast''\<rparr> ChatPage_init))) = [LineChart [7]]"
  using chart_selection
    [where m = "\<lparr>agent_chat_message.role = ''agent'', content = ''a'',
                  chart_data = Some [7 :: nat], chart_type = Some ''forecast'',
                  isStatus = None\<rparr>"
       and d = "[7]" and msg = "greeting :: nat message"
       and ev = "\<lparr>type = ''answer'', content = ''x'', chart_data = Some [7 :: nat],
                   chart_type = Some ''forecast''\<rparr>"
       and s = "ChatPage_init :: nat chat_state"]
    chart_selection
    [where m = "\<lparr>agent_chat_message.role = ''agent'', content = ''a'',
                  chart_data = Some [7 :: nat], chart_type = Some ''bar'',
                  isStatus = None\<rparr>"
       and d = "[7]" and msg = "greeting :: nat message"
       and ev = "\<lparr>type = ''answer'', content = ''x'', chart_data = Some [7 :: nat],
                   chart_type = Some ''forecast''\<rparr>"
       and s = "ChatPage_init :: nat chat_state"]
    chart_selection
    [where m = "\<lparr>agent_chat_message.role = ''user'', content = ''a'',
                  chart_data = Some [7 :: nat], chart_type = Some ''forecast'',
                  isStatus = None\<rparr>"
       and d = "[7]"
       and ev = "\<lparr>type = ''answer'', content = ''x'', chart_data = Some [7 :: nat],
                   chart_type = Some ''forecast''\<rparr>"
       and s = "ChatPage_init :: nat chat_state" and msg = "greeting :: nat message"]
  by simp

section \<open>Properties of the machine card\<close>

lemma lit_1_0_fields:
  "sign_bit lit_1_0 = False \<and> biased_exponent lit_1_0 = 1023 \<and> fraction lit_1_0 = 0"
  by (simp add: lit_1_0_def sign_bit_def biased_exponent_def fraction_def)

lemma lit_0_8_fields:
  "sign_bit lit_0_8 = False \<and> biased_exponent lit_0_8 = 1022 \<and>
   fraction lit_0_8 = 2702159776422298"
  by (simp add: lit_0_8_def sign_bit_def biased_exponent_def fraction_def)

lemma lit_values:
  "double_value lit_1_0 = 1 \<and>
   double_value lit_0_8 = 3602879701896397 / 4503599627370496"
  by (simp add: double_value_def lit_1_0_fields lit_0_8_fields)

lemma lit_0_8_nearest:
  "double_value 0x3FE9999999999999 < 8 / 10 \<and> 8 / 10 < double_value lit_0_8 \<and>
   double_value lit_0_8 - 8 / 10 < 8 / 10 - double_value 0x3FE9999999999999"
proof -
  have "sign_bit 0x3FE9999999999999 = False \<and> biased_exponent 0x3FE9999999999999 = 1022 \<and>
        fraction 0x3FE9999999999999 = 2702159776422297"
    by (simp add: sign_bit_def biased_exponent_def fraction_def)
  then have "double_value 0x3FE9999999999999 = 7205759403792793 / 9007199254740992"
    by (simp add: double_value_def)
  then show ?thesis by (simp add: lit_values)
qed

lemma lit_classes:
  "\<not> is_NaN lit_1_0 \<and> \<not> is_infinite lit_1_0 \<and> \<not> is_NaN lit_0_8 \<and> \<not> is_infinite lit_0_8"
  by (simp add: is_NaN_def is_infinite_def lit_1_0_fields lit_0_8_fields)

lemma double_gt_lits:
  "(double_gt v lit_1_0 \<longrightarrow> double_gt v lit_0_8) \<and>
   (double_gt v lit_0_8 \<longrightarrow> double_le v lit_1_0 = (\<not> double_gt v lit_1_0))"
  by (auto simp: double_gt_def double_le_def lit_classes lit_values)

text \<open>
  C10. After a non-empty metrics response the status of the card is a function of the
  vibration of the last record alone: \<open>error\<close> iff it is above \<open>1.0\<close>, \<open>warning\<close> iff it is
  above \<open>0.8\<close> and at most \<open>1.0\<close>, \<open>running\<close> otherwise, where the comparisons are those of
  doubles with the literals of the source. After an empty response the status is the one
  before, and the first status is \<open>running\<close>.
\<close>

theorem fetchMetrics_status:
  "machine_card.status (fetchMetrics ToNumber (Resolved []) s) = machine_card.status s \<and>
   machine_card.status (MachineCard_init :: 'v machine_card) = ''running'' \<and>
   double_value lit_1_0 = 1 \<and>
   double_value lit_0_8 = 3602879701896397 / 4503599627370496 \<and>
   (rdata \<noteq> [] \<longrightarrow>
      ((machine_card.status
          (fetchMetrics ToNumber (Resolved rdata) (s :: 'v machine_card)) = ''error'') =
         double_gt (ToNumber (vibration (last rdata))) lit_1_0) \<and>
      ((machine_card.status (fetchMetrics ToNumber (Resolved rdata) s) = ''warning'') =
         (double_gt (ToNumber (vibration (last rdata))) lit_0_8 \<and>
          double_le (ToNumber (vibration (last rdata))) lit_1_0)) \<and>
      ((machine_card.status (fetchMetrics ToNumber (Resolved rdata) s) = ''running'') =
         (\<not> double_gt (ToNumber (vibration (last rdata))) lit_0_8)))"
proof -
  let ?v = "ToNumber (vibration (last rdata))"
  have st: "machine_card.status (fetchMetrics ToNumber (Resolved rdata) s) =
            vibration_status ToNumber (last rdata)" if "rdata \<noteq> []"
    using that by (simp add: fetchMetrics_def last_conv_nth)
  have vs: "(vibration_status ToNumber (last rdata) = ''error'') = double_gt ?v lit_1_0 \<and>
        (vibration_status ToNumber (last rdata) = ''warning'') =
          (double_gt ?v lit_0_8 \<and> double_le ?v lit_1_0) \<and>
        (vibration_status ToNumber (last rdata) = ''running'') = (\<not> double_gt ?v lit_0_8)"
    using double_gt_lits [of ?v] by (auto simp: vibration_status_def)
  show ?thesis
    using st vs by (simp add: lit_values fetchMetrics_def MachineCard_init_def)
qed

theorem fetchMetrics_status_witness:
  "[\<lparr>vibration = JNumber 0x3FE0000000000000\<rparr>, \<lparr>vibration = JNumber 0x3FE999999999999A\<rparr>] \<noteq> [] \<and>
   machine_card.status
     (fetchMetrics sample_ToNumber (Resolved [\<lparr>vibration = JNumber 0x3FE0000000000000\<rparr>, \<lparr>vibration = JNumber 0x3FE999999999999A\<rparr>]) MachineCard_init) = ''running'' \<and>
   machine_card.status
     (fetchMetrics sample_ToNumber (Resolved [\<lparr>vibration = JNumber 0x3FE999999999999B\<rparr>]) MachineCard_init) = ''warning'' \<and>
   machine_card.status
     (fetchMetrics sample_ToNumber (Resolved [\<lparr>vibration = JNumber 0x3FF0000000000000\<rparr>]) MachineCard_init) = ''warning'' \<and>
   machine_card.status
     (fetchMetrics sample_ToNumber (Resolved [\<lparr>vibration = JNumber 0x3FF0000000000001\<rparr>]) MachineCard_init) = ''error'' \<and>
   machine_card.status
     (fetchMetrics sample_ToNumber (Resolved [\<lparr>vibration = JNumber 0x7FF8000000000000\<rparr>]) MachineCard_init) = ''running'' \<and>
   machine_card.status
     (fetchMetrics sample_ToNumber (Resolved [\<lparr>vibration = JString ''1.5''\<rparr>]) MachineCard_init) = ''error'' \<and>
   machine_card.status
     (fetchMetrics sample_ToNumber (Resolved [\<lparr>vibration = JUndefined\<rparr>]) MachineCard_init) = ''running''"
proof -
  note ev = double_gt_def double_le_def double_value_def is_NaN_def is_infinite_def
    sign_bit_def biased_exponent_def fraction_def lit_1_0_def lit_0_8_def
  have 1: "machine_card.status
     (fetchMetrics sample_ToNumber (Resolved [\<lparr>vibration = JNumber 0x3FE0000000000000\<rparr>, \<lparr>vibration = JNumber 0x3FE999999999999A\<rparr>]) MachineCard_init) = ''running''"
    using fetchMetrics_status
      [where ToNumber = sample_ToNumber and s = "MachineCard_init :: sample_value machine_card"
         and rdata = "[\<lparr>vibration = JNumber 0x3FE0000000000000\<rparr>, \<lparr>vibration = JNumber 0x3FE999999999999A\<rparr>]"]
    by (simp add: ev)
  have 2: "machine_card.status
     (fetchMetrics sample_ToNumber (Resolved [\<lparr>vibration = JNumber 0x3FE999999999999B\<rparr>]) MachineCard_init) = ''warning''"
    using fetchMetrics_status
      [where ToNumber = sample_ToNumber and s = "MachineCard_init :: sample_value machine_card"
         and rdata = "[\<lparr>vibration = JNumber 0x3FE999999999999B\<rparr>]"]
    by (simp add: ev)
  have 3: "machine_card.status
     (fetchMetrics sample_ToNumber (Resolved [\<lparr>vibration = JNumber 0x3FF0000000000000\<rparr>]) MachineCard_init) = ''warning''"
    using fetchMetrics_status
      [where ToNumber = sample_ToNumber and s = "MachineCard_init :: sample_value machine_card"
         and rdata = "[\<lparr>vibration = JNumber 0x3FF0000000000000\<rparr>]"]
    by (simp add: ev)
  have 4: "machine_card.status
     (fetchMetrics sample_ToNumber (Resolved [\<lparr>vibration = JNumber 0x3FF0000000000001\<rparr>]) MachineCard_init) = ''error''"
    using fetchMetrics_status
      [where ToNumber = sample_ToNumber and s = "MachineCard_init :: sample_value machine_card"
         and rdata = "[\<lparr>vibration = JNumber 0x3FF0000000000001\<rparr>]"]
    by (simp add: ev)
  have 5: "machine_card.status
     (fetchMetrics sample_ToNumber (Resolved [\<lparr>vibration = JNumber 0x7FF8000000000000\<rparr>]) MachineCard_init) = ''running''"
    using fetchMetrics_status
      [where ToNumber = sample_ToNumber and s = "MachineCard_init :: sample_value machine_card"
         and rdata = "[\<lparr>vibration = JNumber 0x7FF8000000000000\<rparr>]"]
    by (simp add: ev)
  have 6: "machine_card.status
     (fetchMetrics sample_ToNumber (Resolved [\<lparr>vibration = JString ''1.5''\<rparr>]) MachineCard_init) = ''error''"
    using fetchMetrics_status
      [where ToNumber = sample_ToNumber and s = "MachineCard_init :: sample_value machine_card"
         and rdata = "[\<lparr>vibration = JString ''1.5''\<rparr>]"]
    by (simp add: ev)
  have 7: "machine_card.status
     (fetchMetrics sample_ToNumber (Resolved [\<lparr>vibration = JUndefined\<rparr>]) MachineCard_init) = ''running''"
    using fetchMetrics_status
      [where ToNumber = sample_ToNumber and s = "MachineCard_init :: sample_value machine_card"
         and rdata = "[\<lparr>vibration = JUndefined\<rparr>]"]
    by (simp add: ev)
  show ?thesis using 1 2 3 4 5 6 7 by simp
qed

end
